theory Spec2Isabelle
  imports Complex_Main
begin

section \<open>Data model of the GoogleMap tracking component\<close>

text \<open>
  A JavaScript \<open>number\<close> as the strict comparison \<open>!==\<close> sees it: the value
  \<open>NaN\<close>, the two infinities, or a finite value. The two zeros of a float64 are strictly
  equal in JavaScript, so one \<open>Finite 0\<close> stands for both.
\<close>

datatype number = NaN | PosInfinity | NegInfinity | Finite real

text \<open>\<open>interface Position { lat: number; lng: number }\<close>\<close>

record Position =
  lat :: number
  lng :: number

text \<open>
  An \<open>_id\<close> as the strict equality \<open>===\<close> sees it: \<open>undefined\<close> (the field is absent),
  \<open>null\<close>, or a string. Each of the three equals only itself, and two strings are equal
  when they are the same string, so \<open>===\<close> on these values is equality of the datatype.
\<close>

datatype js_id = Undefined | Null | Str string

text \<open>
  The fields of \<open>Delivery\<close> that the component reads: \<open>_id\<close> (written \<open>d_id\<close>, an
  identifier cannot start with an underscore), \<open>location\<close> and \<open>status\<close>. The location
  is only tested for truthiness and read through \<open>?.\<close>, which do not tell \<open>undefined\<close>
  from \<open>null\<close>: both are \<open>None\<close>. The status is the string the wire carries.
\<close>

record Delivery =
  d_id :: js_id
  location :: "Position option"
  status :: string

text \<open>\<open>enum SocketEvent\<close>, and the objects handed to \<open>serverSocket.emit\<close>.\<close>

datatype SocketEvent = LocationChanged | StatusChanged | DeliveryUpdated

datatype payload =
  LocationPayload SocketEvent js_id Position
  | StatusPayload SocketEvent js_id string

type_synonym emission = "SocketEvent \<times> payload"

text \<open>
  What a render of the component closes over: the \<open>currentPosition\<close> state
  (\<open>useState<Position | null>(null)\<close>) and \<open>deliveryContext.delivery\<close>.
\<close>

record component =
  currentPosition :: "Position option"
  delivery :: "Delivery option"

section \<open>The change detector\<close>

text \<open>
  \<open>a !== b\<close> on operands that are a number or \<open>undefined\<close>: \<open>undefined\<close> differs
  from every number and not from itself, \<open>NaN\<close> differs from everything (itself
  included), any other number differs from every value but itself.
\<close>

fun strict_not_equal :: "number option \<Rightarrow> number option \<Rightarrow> bool" where
  "strict_not_equal None None = False"
| "strict_not_equal (Some a) (Some b) = (a = NaN \<or> b = NaN \<or> a \<noteq> b)"
| "strict_not_equal _ _ = True"

text \<open>
  \<open>location1?.lat !== location2?.lat || location1?.lng !== location2?.lng\<close>; the optional
  chaining \<open>l?.lat\<close> is \<open>map_option lat l\<close>.
\<close>

definition areLocationDifferent :: "Position option \<Rightarrow> Position option \<Rightarrow> bool" where
  "areLocationDifferent location1 location2 =
     (strict_not_equal (map_option lat location1) (map_option lat location2)
      \<or> strict_not_equal (map_option lng location1) (map_option lng location2))"

section \<open>The handlers\<close>

text \<open>
  \<open>deliveryContext.delivery?._id\<close>: \<open>undefined\<close> when no delivery is held (be the
  context's delivery \<open>undefined\<close> or \<open>null\<close>).
\<close>

definition held_id :: "component \<Rightarrow> js_id" where
  "held_id c = (case delivery c of None \<Rightarrow> Undefined | Some d \<Rightarrow> d_id d)"

text \<open>\<open>deliveryContext?.delivery?.location\<close>\<close>

definition held_location :: "component \<Rightarrow> Position option" where
  "held_location c = (case delivery c of None \<Rightarrow> None | Some d \<Rightarrow> location d)"

text \<open>\<open>deliveryContext.delivery?.status\<close>\<close>

definition held_status :: "component \<Rightarrow> string option" where
  "held_status c = map_option status (delivery c)"

text \<open>
  \<open>handleBrowserFetchCurrentLocation\<close>: the component after the call to
  \<open>setCurrentPosition\<close> (if any), and the events handed to \<open>serverSocket.emit\<close>.
  The guard of the emission is the truthiness of the stored location (an object is truthy,
  \<open>undefined\<close> and \<open>null\<close> are not) and the change detector; the status is not read.
\<close>

definition handleBrowserFetchCurrentLocation ::
  "component \<Rightarrow> Position \<Rightarrow> component \<times> emission list" where
  "handleBrowserFetchCurrentLocation c loc =
     (let c' = (if areLocationDifferent (Some loc) (currentPosition c)
                then c\<lparr>currentPosition := Some loc\<rparr> else c);
          out = (case held_location c of
                   None \<Rightarrow> []
                 | Some stored \<Rightarrow>
                     if areLocationDifferent (Some stored) (Some loc)
                     then [(LocationChanged, LocationPayload LocationChanged (held_id c) loc)]
                     else [])
      in (c', out))"

text \<open>
  \<open>onDeliveryUpdatedEvent\<close>, guarded by \<open>value._id === deliveryContext.delivery?._id\<close>.
  \<open>deliveryContext.updateDelivery\<close> belongs to the delivery context, which is outside this
  component: it is the parameter \<open>updateDelivery\<close>, taking the snapshot and the held
  delivery to the delivery held afterwards.
\<close>

definition onDeliveryUpdatedEvent ::
  "(Delivery \<Rightarrow> Delivery option \<Rightarrow> Delivery option) \<Rightarrow> component \<Rightarrow> Delivery \<Rightarrow> component" where
  "onDeliveryUpdatedEvent updateDelivery c v =
     (if d_id v = held_id c then c\<lparr>delivery := updateDelivery v (delivery c)\<rparr> else c)"

text \<open>
  The four status callbacks \<open>onPickedUp\<close>, \<open>onInTransit\<close>, \<open>onDelivered\<close> and
  \<open>onFailed\<close>: each body is one call of \<open>serverSocket.emit\<close>; none reads the status
  and none calls a setter or \<open>updateDelivery\<close>, so the result is the emissions only.
\<close>

definition onPickedUp :: "component \<Rightarrow> emission list" where
  "onPickedUp c = [(StatusChanged, StatusPayload StatusChanged (held_id c) ''picked-up'')]"

definition onInTransit :: "component \<Rightarrow> emission list" where
  "onInTransit c = [(StatusChanged, StatusPayload StatusChanged (held_id c) ''in-transit'')]"

definition onDelivered :: "component \<Rightarrow> emission list" where
  "onDelivered c = [(StatusChanged, StatusPayload StatusChanged (held_id c) ''delivered'')]"

definition onFailed :: "component \<Rightarrow> emission list" where
  "onFailed c = [(StatusChanged, StatusPayload StatusChanged (held_id c) ''failed'')]"

text \<open>
  A sequence of samples handed to the handler one after the other, each call seeing the
  component the previous one left; no other event comes in between.
\<close>

fun process_samples :: "component \<Rightarrow> Position list \<Rightarrow> component \<times> emission list" where
  "process_samples c [] = (c, [])"
| "process_samples c (p # ps) =
     (let (c1, out1) = handleBrowserFetchCurrentLocation c p;
          (c2, out2) = process_samples c1 ps
      in (c2, out1 @ out2))"

section \<open>The browser and the effects\<close>

text \<open>
  The browser as the component uses it: whether \<open>'geolocation' in navigator\<close> holds, the
  active intervals of \<open>window\<close> (handle and delay in milliseconds), the last handle
  \<open>setInterval\<close> returned (handles are positive), and the number of calls of
  \<open>navigator.geolocation.getCurrentPosition\<close> made so far.
\<close>

record browser =
  has_geolocation :: bool
  intervals :: "(nat \<times> nat) list"
  last_handle :: nat
  position_requests :: nat

definition setInterval :: "nat \<Rightarrow> browser \<Rightarrow> nat \<times> browser" where
  "setInterval delay b =
     (let h = Suc (last_handle b)
      in (h, b\<lparr>intervals := intervals b @ [(h, delay)], last_handle := h\<rparr>))"

definition clearInterval :: "nat \<Rightarrow> browser \<Rightarrow> browser" where
  "clearInterval h b = b\<lparr>intervals := filter (\<lambda>t. fst t \<noteq> h) (intervals b)\<rparr>"

definition getCurrentPosition :: "browser \<Rightarrow> browser" where
  "getCurrentPosition b = b\<lparr>position_requests := Suc (position_requests b)\<rparr>"

text \<open>
  A mounted component: what its current render closes over, the ref
  \<open>fetchCurrentPositionIntervalId\<close> (\<open>useRef<number | null>(null)\<close>), whether the last
  run of the interval effect returned a cleanup function, and the browser.
\<close>

record session =
  rendered :: component
  fetchCurrentPositionIntervalId :: "nat option"
  has_cleanup :: bool
  env :: browser

text \<open>
  The effect that runs once on mount: it asks for the position when the browser has a
  geolocation provider. The success callback is \<open>on_position\<close> below.
\<close>

definition mount_sample_effect :: "browser \<Rightarrow> browser" where
  "mount_sample_effect b = (if has_geolocation b then getCurrentPosition b else b)"

text \<open>The function handed to \<open>setInterval\<close>: the same request at every tick.\<close>

definition interval_callback :: "browser \<Rightarrow> browser" where
  "interval_callback b = (if has_geolocation b then getCurrentPosition b else b)"

text \<open>
  The interval effect, with dependencies \<open>[currentPosition, deliveryContext]\<close>. Its guard
  is \<open>delivery?.status !== 'delivered' && delivery?.status !== 'failed'\<close> (true as well
  when no delivery is held). Under the guard it arms an interval of \<open>20 * 1000\<close> ms,
  stores the handle in the ref and returns a cleanup; otherwise it does nothing and
  returns no cleanup.
\<close>

definition sampling_allowed :: "component \<Rightarrow> bool" where
  "sampling_allowed c =
     (held_status c \<noteq> Some ''delivered'' \<and> held_status c \<noteq> Some ''failed'')"

definition interval_effect :: "session \<Rightarrow> session" where
  "interval_effect s =
     (if sampling_allowed (rendered s)
      then (let (h, b) = setInterval (20 * 1000) (env s)
            in s\<lparr>fetchCurrentPositionIntervalId := Some h, has_cleanup := True, env := b\<rparr>)
      else s\<lparr>has_cleanup := False\<rparr>)"

text \<open>
  The cleanup the effect returns: \<open>if (ref.current) clearInterval(ref.current)\<close>; a handle
  is truthy when it is neither \<open>null\<close> nor \<open>0\<close>.
\<close>

definition interval_cleanup :: "session \<Rightarrow> session" where
  "interval_cleanup s =
     (case fetchCurrentPositionIntervalId s of
        None \<Rightarrow> s
      | Some h \<Rightarrow> if h \<noteq> 0 then s\<lparr>env := clearInterval h (env s)\<rparr> else s)"

text \<open>
  When a dependency of the interval effect changed, React runs the cleanup of its last
  run (if that run returned one) and then the effect again, for the new render.
\<close>

definition rerender :: "session \<Rightarrow> session" where
  "rerender s = interval_effect (if has_cleanup s then interval_cleanup s else s)"

text \<open>Unmounting runs the pending cleanup.\<close>

definition unmount :: "session \<Rightarrow> session" where
  "unmount s = (if has_cleanup s then interval_cleanup s else s)\<lparr>has_cleanup := False\<rparr>"

text \<open>
  The success callback of \<open>getCurrentPosition\<close>: the handler runs on the sample, and the
  component renders again when the handler called \<open>setCurrentPosition\<close>.
\<close>

definition on_position :: "session \<Rightarrow> Position \<Rightarrow> session \<times> emission list" where
  "on_position s p =
     (let (c1, out) = handleBrowserFetchCurrentLocation (rendered s) p
      in (if areLocationDifferent (Some p) (currentPosition (rendered s))
          then rerender (s\<lparr>rendered := c1\<rparr>) else s, out))"

text \<open>
  Mounting with the delivery \<open>d\<close> in the context, in a browser with or without
  geolocation: the effects run in the order of the source (the position request, then
  the interval effect), and the provider answers the request with a sample or fails
  (\<open>None\<close>; no error callback is passed, so a failure does nothing).
\<close>

definition mount :: "Delivery option \<Rightarrow> bool \<Rightarrow> Position option \<Rightarrow> session \<times> emission list" where
  "mount d geo answer =
     (let b0 = \<lparr>has_geolocation = geo, intervals = [], last_handle = 0, position_requests = 0\<rparr>;
          s0 = \<lparr>rendered = \<lparr>currentPosition = None, delivery = d\<rparr>,
                fetchCurrentPositionIntervalId = None, has_cleanup = False,
                env = mount_sample_effect b0\<rparr>;
          s1 = interval_effect s0
      in case answer of
           None \<Rightarrow> (s1, [])
         | Some p \<Rightarrow> if geo then on_position s1 p else (s1, []))"

text \<open>
  What can happen to a mounted component: the armed interval fires and the provider
  answers (or fails), a \<open>delivery_updated\<close> event arrives, or one of the four buttons
  is clicked. A tick needs an armed interval; without one nothing happens.
\<close>

datatype trigger = PickedUp | InTransit | Delivered | Failed

datatype event = TimerTick "Position option" | Receive Delivery | Click trigger

fun click :: "trigger \<Rightarrow> component \<Rightarrow> emission list" where
  "click PickedUp c = onPickedUp c"
| "click InTransit c = onInTransit c"
| "click Delivered c = onDelivered c"
| "click Failed c = onFailed c"

fun step ::
  "(Delivery \<Rightarrow> Delivery option \<Rightarrow> Delivery option) \<Rightarrow> session \<Rightarrow> event
     \<Rightarrow> session \<times> emission list" where
  "step upd s (TimerTick answer) =
     (if intervals (env s) = [] then (s, [])
      else (let s1 = s\<lparr>env := interval_callback (env s)\<rparr>
            in case answer of
                 None \<Rightarrow> (s1, [])
               | Some p \<Rightarrow> if has_geolocation (env s) then on_position s1 p else (s1, [])))"
| "step upd s (Receive v) =
     (if d_id v = held_id (rendered s)
      then (rerender (s\<lparr>rendered := onDeliveryUpdatedEvent upd (rendered s) v\<rparr>), [])
      else (s\<lparr>rendered := onDeliveryUpdatedEvent upd (rendered s) v\<rparr>, []))"
| "step upd s (Click t) = (s, click t (rendered s))"

fun run ::
  "(Delivery \<Rightarrow> Delivery option \<Rightarrow> Delivery option) \<Rightarrow> session \<Rightarrow> event list
     \<Rightarrow> session \<times> emission list" where
  "run upd s [] = (s, [])"
| "run upd s (e # es) =
     (let (s1, out1) = step upd s e;
          (s2, out2) = run upd s1 es
      in (s2, out1 @ out2))"

text \<open>
  Modelled from the spec: \<open>updateDelivery\<close> of the delivery context
  (\<open>contexts/DeliveryContext\<close>, not among the sources). The spec describes it as the
  update operation that replaces the local copy of the delivery with the snapshot.
\<close>

definition replaceDelivery :: "Delivery \<Rightarrow> Delivery option \<Rightarrow> Delivery option" where
  "replaceDelivery v held = Some v"


section \<open>The timer invariant\<close>

text \<open>
  The ref holds a positive handle and the browser's only active interval is that handle,
  with a delay of 20000 ms.
\<close>

fun armed :: "nat option \<Rightarrow> (nat \<times> nat) list \<Rightarrow> bool" where
  "armed None ts = False"
| "armed (Some h) ts = (h \<noteq> 0 \<and> ts = [(h, 20 * 1000)])"

text \<open>
  What a pending cleanup will find: the interval it has to clear, and no interval when
  there is no cleanup.
\<close>

definition cleanup_inv :: "session \<Rightarrow> bool" where
  "cleanup_inv s =
     (if has_cleanup s
      then armed (fetchCurrentPositionIntervalId s) (intervals (env s))
      else intervals (env s) = [])"

text \<open>
  The invariant of a mounted component: one interval is armed, with a cleanup pending,
  when the guard of the interval effect holds of the current render, and none otherwise.
\<close>

definition timer_inv :: "session \<Rightarrow> bool" where
  "timer_inv s =
     (if sampling_allowed (rendered s)
      then has_cleanup s \<and> armed (fetchCurrentPositionIntervalId s) (intervals (env s))
      else \<not> has_cleanup s \<and> intervals (env s) = [])"

section \<open>Properties of the change detector\<close>

lemma strict_not_equal_sym: "strict_not_equal a b = strict_not_equal b a"
  by (cases a; cases b) auto

lemma areLocationDifferent_sym: "areLocationDifferent a b = areLocationDifferent b a"
  unfolding areLocationDifferent_def
  using strict_not_equal_sym by blast

text \<open>
  C6, as amended. The change detector is a total function without effects. It is
  symmetric in its two arguments; it answers true on an absent and a present coordinate;
  and on a present coordinate compared with itself it answers false exactly when neither
  field is \<open>NaN\<close> (a \<open>NaN\<close> field differs from itself under \<open>!==\<close>).
\<close>

theorem areLocationDifferent_laws:
  "areLocationDifferent a b = areLocationDifferent b a
   \<and> areLocationDifferent (Some p) (Some p) = (lat p = NaN \<or> lng p = NaN)
   \<and> areLocationDifferent None (Some q)"
  using areLocationDifferent_sym [of a b]
  by (simp add: areLocationDifferent_def)

text \<open>
  C6 as stated fails: a present coordinate whose latitude is \<open>NaN\<close> differs from itself.
\<close>

theorem areLocationDifferent_nan_not_reflexive:
  "areLocationDifferent (Some \<lparr>lat = NaN, lng = Finite 0\<rparr>) (Some \<lparr>lat = NaN, lng = Finite 0\<rparr>)"
  by (simp add: areLocationDifferent_def)

text \<open>The laws of C6 at \<open>{lat: 1, lng: 2}\<close> and \<open>{lat: 10, lng: 20}\<close>.\<close>

theorem areLocationDifferent_laws_witness:
  "areLocationDifferent (Some \<lparr>lat = Finite 1, lng = Finite 2\<rparr>) None
     = areLocationDifferent None (Some \<lparr>lat = Finite 1, lng = Finite 2\<rparr>)
   \<and> areLocationDifferent (Some \<lparr>lat = Finite 10, lng = Finite 20\<rparr>)
        (Some \<lparr>lat = Finite 10, lng = Finite 20\<rparr>) = False
   \<and> areLocationDifferent None (Some \<lparr>lat = Finite 10, lng = Finite 20\<rparr>)"
  using areLocationDifferent_laws
    [of "Some \<lparr>lat = Finite 1, lng = Finite 2\<rparr>" None
        "\<lparr>lat = Finite 10, lng = Finite 20\<rparr>" "\<lparr>lat = Finite 10, lng = Finite 20\<rparr>"]
  by simp

text \<open>
  C9: the change detector treats two absent coordinates as equal:
  \<open>areLocationDifferent(null, null)\<close> is false, so a comparison of two absent locations
  triggers nothing.
\<close>

theorem areLocationDifferent_absent_absent:
  "areLocationDifferent None None = False"
  by (simp add: areLocationDifferent_def)

section \<open>The outbound handler\<close>

lemma handler_delivery [simp]:
  "delivery (fst (handleBrowserFetchCurrentLocation c p)) = delivery c"
  by (simp add: handleBrowserFetchCurrentLocation_def Let_def)

lemma handler_fst:
  "fst (handleBrowserFetchCurrentLocation c p) =
     (if areLocationDifferent (Some p) (currentPosition c)
      then c\<lparr>currentPosition := Some p\<rparr> else c)"
  by (simp add: handleBrowserFetchCurrentLocation_def Let_def)

lemma handler_snd:
  "snd (handleBrowserFetchCurrentLocation c p) =
     (if held_location c \<noteq> None \<and> areLocationDifferent (held_location c) (Some p)
      then [(LocationChanged, LocationPayload LocationChanged (held_id c) p)] else [])"
  by (auto simp add: handleBrowserFetchCurrentLocation_def Let_def split: option.splits)

text \<open>
  C3, as amended. For every sample that arrives when both the local position and the
  stored location of the delivery are absent, the handler sets the local position to the
  sample and emits nothing: the emission is guarded by the presence of the stored
  location, so an absent stored location never triggers a \<open>location_changed\<close> event.
\<close>

theorem first_sample_without_stored_location:
  "currentPosition c = None \<Longrightarrow> held_location c = None \<Longrightarrow>
   handleBrowserFetchCurrentLocation c p = (c\<lparr>currentPosition := Some p\<rparr>, [])"
  by (simp add: handleBrowserFetchCurrentLocation_def Let_def areLocationDifferent_def)

text \<open>
  C3 as stated fails on its own scenario: local position absent, stored location absent,
  sample \<open>{lat: 10, lng: 20}\<close>. The local position becomes the sample and no event is
  emitted.
\<close>

theorem first_sample_emits_nothing:
  "handleBrowserFetchCurrentLocation
     \<lparr>currentPosition = None,
      delivery = Some \<lparr>d_id = Str ''D1'', location = None, status = ''open''\<rparr>\<rparr>
     \<lparr>lat = Finite 10, lng = Finite 20\<rparr>
   = (\<lparr>currentPosition = Some \<lparr>lat = Finite 10, lng = Finite 20\<rparr>,
       delivery = Some \<lparr>d_id = Str ''D1'', location = None, status = ''open''\<rparr>\<rparr>, [])"
  by (simp add: handleBrowserFetchCurrentLocation_def Let_def areLocationDifferent_def
      held_location_def)

text \<open>The amended C3 where no delivery is held at all.\<close>

theorem first_sample_without_stored_location_witness:
  "currentPosition \<lparr>currentPosition = None, delivery = None\<rparr> = None
   \<and> held_location \<lparr>currentPosition = None, delivery = None\<rparr> = None
   \<and> handleBrowserFetchCurrentLocation \<lparr>currentPosition = None, delivery = None\<rparr>
        \<lparr>lat = Finite 10, lng = Finite 20\<rparr>
      = (\<lparr>currentPosition = Some \<lparr>lat = Finite 10, lng = Finite 20\<rparr>, delivery = None\<rparr>, [])"
proof -
  have h1: "currentPosition \<lparr>currentPosition = None, delivery = None\<rparr> = None"
    by simp
  have h2: "held_location \<lparr>currentPosition = None, delivery = None\<rparr> = None"
    by (simp add: held_location_def)
  show ?thesis
    using h1 h2
      first_sample_without_stored_location [OF h1 h2, of "\<lparr>lat = Finite 10, lng = Finite 20\<rparr>"]
    by simp
qed

lemma not_different_iff:
  "(\<not> areLocationDifferent a (Some p)) = (a = Some p \<and> lat p \<noteq> NaN \<and> lng p \<noteq> NaN)"
proof (cases a)
  case None
  then show ?thesis by (simp add: areLocationDifferent_def)
next
  case (Some q)
  then show ?thesis
    by (cases q; cases p) (auto simp add: areLocationDifferent_def)
qed

text \<open>
  C4, as amended. Every sample that differs from the local position and equals the stored
  location of the delivery updates the local position; it emits nothing when neither of
  its fields is \<open>NaN\<close>, and is emitted when one is (a \<open>NaN\<close> field differs from itself under
  \<open>!==\<close>). A sample that equals the local position leaves the component as it is. The
  two comparisons are independent: the change detector on the local position alone
  decides the update, the change detector on the stored location (which must be present)
  alone decides the emission.
\<close>

theorem two_baselines:
  "(currentPosition c \<noteq> Some p \<and> held_location c = Some p \<longrightarrow>
      fst (handleBrowserFetchCurrentLocation c p) = c\<lparr>currentPosition := Some p\<rparr>
      \<and> snd (handleBrowserFetchCurrentLocation c p) =
          (if lat p = NaN \<or> lng p = NaN
           then [(LocationChanged, LocationPayload LocationChanged (held_id c) p)] else []))
   \<and> (currentPosition c = Some p \<longrightarrow> fst (handleBrowserFetchCurrentLocation c p) = c)
   \<and> (areLocationDifferent (Some p) (currentPosition c)
      \<and> \<not> areLocationDifferent (held_location c) (Some p)
      \<longrightarrow> handleBrowserFetchCurrentLocation c p = (c\<lparr>currentPosition := Some p\<rparr>, []))
   \<and> (\<not> areLocationDifferent (Some p) (currentPosition c)
      \<longrightarrow> fst (handleBrowserFetchCurrentLocation c p) = c)
   \<and> fst (handleBrowserFetchCurrentLocation c p) =
       (if areLocationDifferent (Some p) (currentPosition c)
        then c\<lparr>currentPosition := Some p\<rparr> else c)
   \<and> snd (handleBrowserFetchCurrentLocation c p) =
       (if held_location c \<noteq> None \<and> areLocationDifferent (held_location c) (Some p)
        then [(LocationChanged, LocationPayload LocationChanged (held_id c) p)] else [])"
proof -
  have value_differs: "currentPosition c \<noteq> Some p \<Longrightarrow>
      areLocationDifferent (Some p) (currentPosition c)"
    using not_different_iff [of "currentPosition c" p] areLocationDifferent_sym by blast
  have same_value: "currentPosition c = Some p \<Longrightarrow> c\<lparr>currentPosition := Some p\<rparr> = c"
    by (cases c) auto
  have stored_same: "areLocationDifferent (Some p) (Some p) = (lat p = NaN \<or> lng p = NaN)"
    by (simp add: areLocationDifferent_def)
  show ?thesis
    using handler_fst [of c p] handler_snd [of c p] value_differs same_value stored_same
    by (cases "handleBrowserFetchCurrentLocation c p") auto
qed

text \<open>
  C4 as stated fails: with local position \<open>{0, 0}\<close> and stored location
  \<open>{lat: NaN, lng: 0}\<close>, the sample \<open>{lat: NaN, lng: 0}\<close> differs from the local position
  and is the stored location, yet it is emitted.
\<close>

theorem nan_sample_equal_to_stored_is_emitted:
  "currentPosition
      \<lparr>currentPosition = Some \<lparr>lat = Finite 0, lng = Finite 0\<rparr>,
       delivery = Some \<lparr>d_id = Str ''D1'',
         location = Some \<lparr>lat = NaN, lng = Finite 0\<rparr>, status = ''in-transit''\<rparr>\<rparr>
     \<noteq> Some \<lparr>lat = NaN, lng = Finite 0\<rparr>
   \<and> held_location
      \<lparr>currentPosition = Some \<lparr>lat = Finite 0, lng = Finite 0\<rparr>,
       delivery = Some \<lparr>d_id = Str ''D1'',
         location = Some \<lparr>lat = NaN, lng = Finite 0\<rparr>, status = ''in-transit''\<rparr>\<rparr>
     = Some \<lparr>lat = NaN, lng = Finite 0\<rparr>
   \<and> snd (handleBrowserFetchCurrentLocation
      \<lparr>currentPosition = Some \<lparr>lat = Finite 0, lng = Finite 0\<rparr>,
       delivery = Some \<lparr>d_id = Str ''D1'',
         location = Some \<lparr>lat = NaN, lng = Finite 0\<rparr>, status = ''in-transit''\<rparr>\<rparr>
      \<lparr>lat = NaN, lng = Finite 0\<rparr>)
     = [(LocationChanged,
         LocationPayload LocationChanged (Str ''D1'') \<lparr>lat = NaN, lng = Finite 0\<rparr>)]"
  by (simp add: handleBrowserFetchCurrentLocation_def Let_def areLocationDifferent_def
      held_location_def held_id_def)

text \<open>
  The amended C4 at the sample \<open>{lat: 1, lng: 1}\<close>: with local position \<open>{0, 0}\<close> and
  stored location \<open>{1, 1}\<close> the local position is updated and nothing is emitted; with
  local position \<open>{1, 1}\<close> and stored location \<open>{0, 0}\<close> the local position stays, and
  the event is emitted.
\<close>

theorem two_baselines_witness:
  "currentPosition
      \<lparr>currentPosition = Some \<lparr>lat = Finite 0, lng = Finite 0\<rparr>,
       delivery = Some \<lparr>d_id = Str ''D1'',
         location = Some \<lparr>lat = Finite 1, lng = Finite 1\<rparr>, status = ''in-transit''\<rparr>\<rparr>
     \<noteq> Some \<lparr>lat = Finite 1, lng = Finite 1\<rparr>
   \<and> held_location
      \<lparr>currentPosition = Some \<lparr>lat = Finite 0, lng = Finite 0\<rparr>,
       delivery = Some \<lparr>d_id = Str ''D1'',
         location = Some \<lparr>lat = Finite 1, lng = Finite 1\<rparr>, status = ''in-transit''\<rparr>\<rparr>
     = Some \<lparr>lat = Finite 1, lng = Finite 1\<rparr>
   \<and> areLocationDifferent (Some \<lparr>lat = Finite 1, lng = Finite 1\<rparr>)
     (currentPosition
        \<lparr>currentPosition = Some \<lparr>lat = Finite 0, lng = Finite 0\<rparr>,
         delivery = Some \<lparr>d_id = Str ''D1'',
           location = Some \<lparr>lat = Finite 1, lng = Finite 1\<rparr>, status = ''in-transit''\<rparr>\<rparr>)
   \<and> handleBrowserFetchCurrentLocation
        \<lparr>currentPosition = Some \<lparr>lat = Finite 0, lng = Finite 0\<rparr>,
         delivery = Some \<lparr>d_id = Str ''D1'',
           location = Some \<lparr>lat = Finite 1, lng = Finite 1\<rparr>, status = ''in-transit''\<rparr>\<rparr>
        \<lparr>lat = Finite 1, lng = Finite 1\<rparr>
      = (\<lparr>currentPosition = Some \<lparr>lat = Finite 1, lng = Finite 1\<rparr>,
          delivery = Some \<lparr>d_id = Str ''D1'',
            location = Some \<lparr>lat = Finite 1, lng = Finite 1\<rparr>, status = ''in-transit''\<rparr>\<rparr>, [])
   \<and> handleBrowserFetchCurrentLocation
        \<lparr>currentPosition = Some \<lparr>lat = Finite 1, lng = Finite 1\<rparr>,
         delivery = Some \<lparr>d_id = Str ''D1'',
           location = Some \<lparr>lat = Finite 0, lng = Finite 0\<rparr>, status = ''in-transit''\<rparr>\<rparr>
        \<lparr>lat = Finite 1, lng = Finite 1\<rparr>
      = (\<lparr>currentPosition = Some \<lparr>lat = Finite 1, lng = Finite 1\<rparr>,
          delivery = Some \<lparr>d_id = Str ''D1'',
            location = Some \<lparr>lat = Finite 0, lng = Finite 0\<rparr>, status = ''in-transit''\<rparr>\<rparr>,
         [(LocationChanged,
           LocationPayload LocationChanged (Str ''D1'') \<lparr>lat = Finite 1, lng = Finite 1\<rparr>)])"
  using
    two_baselines [of
      "\<lparr>currentPosition = Some \<lparr>lat = Finite 0, lng = Finite 0\<rparr>,
        delivery = Some \<lparr>d_id = Str ''D1'',
          location = Some \<lparr>lat = Finite 1, lng = Finite 1\<rparr>, status = ''in-transit''\<rparr>\<rparr>"
      "\<lparr>lat = Finite 1, lng = Finite 1\<rparr>"]
    two_baselines [of
      "\<lparr>currentPosition = Some \<lparr>lat = Finite 1, lng = Finite 1\<rparr>,
        delivery = Some \<lparr>d_id = Str ''D1'',
          location = Some \<lparr>lat = Finite 0, lng = Finite 0\<rparr>, status = ''in-transit''\<rparr>\<rparr>"
      "\<lparr>lat = Finite 1, lng = Finite 1\<rparr>"]
  by (simp add: areLocationDifferent_def held_location_def held_id_def prod_eq_iff)

section \<open>Sequences of samples\<close>

lemma process_samples_snd:
  "snd (process_samples c ps) =
     map (\<lambda>p. (LocationChanged, LocationPayload LocationChanged (held_id c) p))
       (filter (\<lambda>p. held_location c \<noteq> None \<and> areLocationDifferent (held_location c) (Some p)) ps)"
proof (induction ps arbitrary: c)
  case Nil
  show ?case by simp
next
  case (Cons p ps)
  let ?c1 = "fst (handleBrowserFetchCurrentLocation c p)"
  have same: "held_location ?c1 = held_location c" "held_id ?c1 = held_id c"
    by (simp_all add: held_location_def held_id_def)
  have "snd (process_samples c (p # ps)) =
          snd (handleBrowserFetchCurrentLocation c p) @ snd (process_samples ?c1 ps)"
    by (simp add: case_prod_unfold Let_def)
  then show ?case
    using Cons.IH [of ?c1] same by (simp add: handler_snd)
qed

text \<open>
  C2, as amended. For every sequence of samples processed with no \<open>delivery_updated\<close>
  event in between, a \<open>location_changed\<close> event is emitted for each sample, repeated or
  not, that the change detector finds different from the stored location of the held
  delivery (which must be present), and for no other sample. Emissions are not compared
  with earlier samples, so two identical consecutive samples yield no event or two, never
  exactly one.
\<close>

theorem emissions_of_sample_sequence:
  "snd (process_samples c ps) =
     map (\<lambda>p. (LocationChanged, LocationPayload LocationChanged (held_id c) p))
       (filter (\<lambda>p. held_location c \<noteq> None \<and> areLocationDifferent (held_location c) (Some p)) ps)
   \<and> length (snd (process_samples c [p, p])) \<noteq> 1"
  using process_samples_snd [of c ps] process_samples_snd [of c "[p, p]"]
  by (simp del: process_samples.simps)

text \<open>
  C2 as stated fails on its own scenario: the samples \<open>{1, 1}\<close> and \<open>{1, 1}\<close> arrive
  while the delivery stores \<open>{0, 0}\<close>; both are emitted.
\<close>

theorem repeated_sample_emitted_twice:
  "snd (process_samples
     \<lparr>currentPosition = None,
      delivery = Some \<lparr>d_id = Str ''D1'',
        location = Some \<lparr>lat = Finite 0, lng = Finite 0\<rparr>, status = ''in-transit''\<rparr>\<rparr>
     [\<lparr>lat = Finite 1, lng = Finite 1\<rparr>, \<lparr>lat = Finite 1, lng = Finite 1\<rparr>])
   = [(LocationChanged,
       LocationPayload LocationChanged (Str ''D1'') \<lparr>lat = Finite 1, lng = Finite 1\<rparr>),
      (LocationChanged,
       LocationPayload LocationChanged (Str ''D1'') \<lparr>lat = Finite 1, lng = Finite 1\<rparr>)]"
  by (simp add: handleBrowserFetchCurrentLocation_def Let_def areLocationDifferent_def
      held_location_def held_id_def)

text \<open>
  The amended C2 on three samples, the delivery storing \<open>{1, 1}\<close>: the sample \<open>{1, 1}\<close> is
  not emitted, the sample \<open>{2, 2}\<close> is emitted each time it arrives.
\<close>

theorem emissions_of_sample_sequence_witness:
  "snd (process_samples
     \<lparr>currentPosition = None,
      delivery = Some \<lparr>d_id = Str ''D1'',
        location = Some \<lparr>lat = Finite 1, lng = Finite 1\<rparr>, status = ''in-transit''\<rparr>\<rparr>
     [\<lparr>lat = Finite 2, lng = Finite 2\<rparr>, \<lparr>lat = Finite 1, lng = Finite 1\<rparr>,
      \<lparr>lat = Finite 2, lng = Finite 2\<rparr>])
   = [(LocationChanged,
       LocationPayload LocationChanged (Str ''D1'') \<lparr>lat = Finite 2, lng = Finite 2\<rparr>),
      (LocationChanged,
       LocationPayload LocationChanged (Str ''D1'') \<lparr>lat = Finite 2, lng = Finite 2\<rparr>)]"
  using emissions_of_sample_sequence
    [of "\<lparr>currentPosition = None,
          delivery = Some \<lparr>d_id = Str ''D1'',
            location = Some \<lparr>lat = Finite 1, lng = Finite 1\<rparr>, status = ''in-transit''\<rparr>\<rparr>"
        "[\<lparr>lat = Finite 2, lng = Finite 2\<rparr>, \<lparr>lat = Finite 1, lng = Finite 1\<rparr>,
          \<lparr>lat = Finite 2, lng = Finite 2\<rparr>]"]
  by (simp add: areLocationDifferent_def held_location_def held_id_def del: process_samples.simps)

section \<open>The inbound handler\<close>

text \<open>
  C5. When the \<open>_id\<close> of the snapshot equals the id of the held delivery, the handler hands
  the whole snapshot to \<open>updateDelivery\<close>, which replaces the held delivery: location and
  status afterwards are the snapshot's, whatever was held before. When the ids differ
  the component is left as it is, nothing is emitted and no effect runs again.
\<close>

theorem delivery_updated_overwrites_or_ignores:
  "(d_id v = held_id c \<longrightarrow>
      onDeliveryUpdatedEvent replaceDelivery c v = c\<lparr>delivery := Some v\<rparr>
      \<and> held_location (onDeliveryUpdatedEvent replaceDelivery c v) = location v
      \<and> held_status (onDeliveryUpdatedEvent replaceDelivery c v) = Some (status v))
   \<and> (d_id v \<noteq> held_id c \<longrightarrow> onDeliveryUpdatedEvent upd c v = c)
   \<and> (d_id v \<noteq> held_id (rendered s) \<longrightarrow> step upd s (Receive v) = (s, []))"
  by (simp add: onDeliveryUpdatedEvent_def replaceDelivery_def held_location_def held_status_def)

text \<open>
  C5 on the delivery \<open>D1\<close>, held as \<open>open\<close> at \<open>{0, 0}\<close>: a snapshot of \<open>D1\<close> without a
  location and with status \<open>picked-up\<close> replaces it (the old location is not kept); a
  snapshot of \<open>D2\<close> changes nothing.
\<close>

theorem delivery_updated_overwrites_or_ignores_witness:
  "d_id \<lparr>d_id = Str ''D1'', location = None, status = ''picked-up''\<rparr>
     = held_id \<lparr>currentPosition = None,
         delivery = Some \<lparr>d_id = Str ''D1'',
           location = Some \<lparr>lat = Finite 0, lng = Finite 0\<rparr>, status = ''open''\<rparr>\<rparr>
   \<and> onDeliveryUpdatedEvent replaceDelivery
        \<lparr>currentPosition = None,
         delivery = Some \<lparr>d_id = Str ''D1'',
           location = Some \<lparr>lat = Finite 0, lng = Finite 0\<rparr>, status = ''open''\<rparr>\<rparr>
        \<lparr>d_id = Str ''D1'', location = None, status = ''picked-up''\<rparr>
      = \<lparr>currentPosition = None,
         delivery = Some \<lparr>d_id = Str ''D1'', location = None, status = ''picked-up''\<rparr>\<rparr>
   \<and> d_id \<lparr>d_id = Str ''D2'', location = None, status = ''picked-up''\<rparr>
     \<noteq> held_id \<lparr>currentPosition = None,
         delivery = Some \<lparr>d_id = Str ''D1'',
           location = Some \<lparr>lat = Finite 0, lng = Finite 0\<rparr>, status = ''open''\<rparr>\<rparr>
   \<and> onDeliveryUpdatedEvent replaceDelivery
        \<lparr>currentPosition = None,
         delivery = Some \<lparr>d_id = Str ''D1'',
           location = Some \<lparr>lat = Finite 0, lng = Finite 0\<rparr>, status = ''open''\<rparr>\<rparr>
        \<lparr>d_id = Str ''D2'', location = None, status = ''picked-up''\<rparr>
      = \<lparr>currentPosition = None,
         delivery = Some \<lparr>d_id = Str ''D1'',
           location = Some \<lparr>lat = Finite 0, lng = Finite 0\<rparr>, status = ''open''\<rparr>\<rparr>
   \<and> step replaceDelivery
        \<lparr>rendered = \<lparr>currentPosition = None,
           delivery = Some \<lparr>d_id = Str ''D1'',
             location = Some \<lparr>lat = Finite 0, lng = Finite 0\<rparr>, status = ''open''\<rparr>\<rparr>,
         fetchCurrentPositionIntervalId = Some 1, has_cleanup = True,
         env = \<lparr>has_geolocation = True, intervals = [(1, 20000)], last_handle = 1,
           position_requests = 1\<rparr>\<rparr>
        (Receive \<lparr>d_id = Str ''D2'', location = None, status = ''picked-up''\<rparr>)
      = (\<lparr>rendered = \<lparr>currentPosition = None,
           delivery = Some \<lparr>d_id = Str ''D1'',
             location = Some \<lparr>lat = Finite 0, lng = Finite 0\<rparr>, status = ''open''\<rparr>\<rparr>,
          fetchCurrentPositionIntervalId = Some 1, has_cleanup = True,
          env = \<lparr>has_geolocation = True, intervals = [(1, 20000)], last_handle = 1,
            position_requests = 1\<rparr>\<rparr>, [])"
  using
    delivery_updated_overwrites_or_ignores
      [of "\<lparr>d_id = Str ''D1'', location = None, status = ''picked-up''\<rparr>"
          "\<lparr>currentPosition = None,
            delivery = Some \<lparr>d_id = Str ''D1'',
              location = Some \<lparr>lat = Finite 0, lng = Finite 0\<rparr>, status = ''open''\<rparr>\<rparr>"]
    delivery_updated_overwrites_or_ignores
      [of "\<lparr>d_id = Str ''D2'', location = None, status = ''picked-up''\<rparr>"
          "\<lparr>currentPosition = None,
            delivery = Some \<lparr>d_id = Str ''D1'',
              location = Some \<lparr>lat = Finite 0, lng = Finite 0\<rparr>, status = ''open''\<rparr>\<rparr>"
          replaceDelivery
          "\<lparr>rendered = \<lparr>currentPosition = None,
             delivery = Some \<lparr>d_id = Str ''D1'',
               location = Some \<lparr>lat = Finite 0, lng = Finite 0\<rparr>, status = ''open''\<rparr>\<rparr>,
            fetchCurrentPositionIntervalId = Some 1, has_cleanup = True,
            env = \<lparr>has_geolocation = True, intervals = [(1, 20000)], last_handle = 1,
              position_requests = 1\<rparr>\<rparr>"]
  by (simp add: held_id_def del: step.simps)

text \<open>
  C10. The inbound handler accepts a snapshot exactly when its \<open>_id\<close> is strictly equal
  to \<open>delivery?._id\<close>: then it hands the snapshot to \<open>updateDelivery\<close>, and otherwise it
  leaves the component as it is. The absent case is included: when no delivery is held,
  \<open>delivery?._id\<close> is \<open>undefined\<close>, so a snapshot whose \<open>_id\<close> field is absent passes the
  guard and is accepted, and every other snapshot (a string \<open>_id\<close>, or \<open>null\<close>) is ignored.
\<close>

theorem delivery_updated_guard_strict_equality:
  "(d_id v = held_id c \<longrightarrow>
      onDeliveryUpdatedEvent upd c v = c\<lparr>delivery := upd v (delivery c)\<rparr>)
   \<and> (d_id v \<noteq> held_id c \<longrightarrow> onDeliveryUpdatedEvent upd c v = c)
   \<and> (delivery c = None \<and> d_id v = Undefined \<longrightarrow>
      onDeliveryUpdatedEvent upd c v = c\<lparr>delivery := upd v None\<rparr>)
   \<and> (delivery c = None \<and> d_id v \<noteq> Undefined \<longrightarrow> onDeliveryUpdatedEvent upd c v = c)"
  by (simp add: onDeliveryUpdatedEvent_def held_id_def)

text \<open>
  C10 with no delivery held and an update operation that stores the snapshot: a snapshot
  without \<open>_id\<close> and with status \<open>delivered\<close> becomes the held delivery; the same snapshot
  with \<open>_id: null\<close> is ignored.
\<close>

theorem delivery_updated_guard_strict_equality_witness:
  "delivery \<lparr>currentPosition = None, delivery = None\<rparr> = None
   \<and> d_id \<lparr>d_id = Undefined, location = None, status = ''delivered''\<rparr>
      = held_id \<lparr>currentPosition = None, delivery = None\<rparr>
   \<and> onDeliveryUpdatedEvent (\<lambda>snapshot held. Some snapshot)
        \<lparr>currentPosition = None, delivery = None\<rparr>
        \<lparr>d_id = Undefined, location = None, status = ''delivered''\<rparr>
      = \<lparr>currentPosition = None,
         delivery = Some \<lparr>d_id = Undefined, location = None, status = ''delivered''\<rparr>\<rparr>
   \<and> d_id \<lparr>d_id = Null, location = None, status = ''delivered''\<rparr>
      \<noteq> held_id \<lparr>currentPosition = None, delivery = None\<rparr>
   \<and> onDeliveryUpdatedEvent (\<lambda>snapshot held. Some snapshot)
        \<lparr>currentPosition = None, delivery = None\<rparr>
        \<lparr>d_id = Null, location = None, status = ''delivered''\<rparr>
      = \<lparr>currentPosition = None, delivery = None\<rparr>"
  using
    delivery_updated_guard_strict_equality
      [of "\<lparr>d_id = Undefined, location = None, status = ''delivered''\<rparr>"
          "\<lparr>currentPosition = None, delivery = None\<rparr>"
          "\<lambda>snapshot held. Some snapshot"]
    delivery_updated_guard_strict_equality
      [of "\<lparr>d_id = Null, location = None, status = ''delivered''\<rparr>"
          "\<lparr>currentPosition = None, delivery = None\<rparr>"
          "\<lambda>snapshot held. Some snapshot"]
  by (simp add: held_id_def)

section \<open>The timer follows the status\<close>

lemma timer_inv_cleanup_inv: "timer_inv s \<Longrightarrow> cleanup_inv s"
  by (auto simp add: timer_inv_def cleanup_inv_def split: if_splits)

lemma cleanup_clears:
  "cleanup_inv s \<Longrightarrow> intervals (env (if has_cleanup s then interval_cleanup s else s)) = []"
  by (cases "fetchCurrentPositionIntervalId s")
    (auto simp add: cleanup_inv_def interval_cleanup_def clearInterval_def)

lemma interval_effect_inv:
  "intervals (env s) = [] \<Longrightarrow> timer_inv (interval_effect s)"
  by (simp add: timer_inv_def interval_effect_def setInterval_def Let_def)

lemma rerender_inv: "cleanup_inv s \<Longrightarrow> timer_inv (rerender s)"
  unfolding rerender_def by (rule interval_effect_inv) (rule cleanup_clears)

lemma cleanup_inv_rendered: "cleanup_inv (s\<lparr>rendered := c\<rparr>) = cleanup_inv s"
  by (simp add: cleanup_inv_def)

lemma timer_inv_requests: "timer_inv (s\<lparr>env := interval_callback (env s)\<rparr>) = timer_inv s"
  by (simp add: timer_inv_def interval_callback_def getCurrentPosition_def)

lemma on_position_inv: "timer_inv s \<Longrightarrow> timer_inv (fst (on_position s p))"
proof -
  assume inv: "timer_inv s"
  have "cleanup_inv (s\<lparr>rendered := c\<rparr>)" for c
    using inv by (simp add: cleanup_inv_rendered timer_inv_cleanup_inv)
  then have "timer_inv (rerender (s\<lparr>rendered := c\<rparr>))" for c
    by (rule rerender_inv)
  then show ?thesis
    using inv by (simp add: on_position_def case_prod_unfold Let_def)
qed

lemma mount_inv: "timer_inv (fst (mount d geo a))"
proof -
  define s1 where "s1 = interval_effect
     \<lparr>rendered = \<lparr>currentPosition = None, delivery = d\<rparr>,
      fetchCurrentPositionIntervalId = None, has_cleanup = False,
      env = mount_sample_effect
        \<lparr>has_geolocation = geo, intervals = [], last_handle = 0, position_requests = 0\<rparr>\<rparr>"
  have inv: "timer_inv s1"
    unfolding s1_def
    by (rule interval_effect_inv) (simp add: mount_sample_effect_def getCurrentPosition_def)
  have "fst (mount d geo a) = s1 \<or> (\<exists>p. fst (mount d geo a) = fst (on_position s1 p))"
    by (cases a; cases geo) (auto simp add: mount_def Let_def s1_def)
  then show ?thesis
    using inv on_position_inv [OF inv] by auto
qed

lemma onDeliveryUpdatedEvent_mismatch:
  "d_id v \<noteq> held_id c \<Longrightarrow> onDeliveryUpdatedEvent upd c v = c"
  by (simp add: onDeliveryUpdatedEvent_def)

lemma step_inv: "timer_inv s \<Longrightarrow> timer_inv (fst (step upd s ev))"
proof (cases ev)
  case (TimerTick answer)
  assume inv: "timer_inv s"
  then have "timer_inv (s\<lparr>env := interval_callback (env s)\<rparr>)"
    by (simp add: timer_inv_requests)
  then show ?thesis
    using inv TimerTick on_position_inv [of "s\<lparr>env := interval_callback (env s)\<rparr>"]
    by (simp add: Let_def split: option.splits)
next
  case (Receive v)
  assume inv: "timer_inv s"
  then show ?thesis
    using Receive
    by (simp add: rerender_inv cleanup_inv_rendered timer_inv_cleanup_inv
        onDeliveryUpdatedEvent_mismatch)
next
  case (Click t)
  assume "timer_inv s"
  then show ?thesis using Click by simp
qed

lemma run_inv: "timer_inv s \<Longrightarrow> timer_inv (fst (run upd s evs))"
proof (induction evs arbitrary: s)
  case Nil
  then show ?case by simp
next
  case (Cons e es)
  have "timer_inv (fst (run upd (fst (step upd s e)) es))"
    using Cons.IH [OF step_inv [OF Cons.prems]] .
  then show ?case by (simp add: case_prod_unfold Let_def)
qed

lemma reachable_inv: "timer_inv (fst (run upd (fst (mount d geo a)) evs))"
  by (rule run_inv) (rule mount_inv)

text \<open>
  C1, as amended. In every state a mounted component can reach, while the status of the
  held delivery is \<open>delivered\<close> or \<open>failed\<close> no interval is armed, so a timer tick requests
  no sample, does not call the outbound handler and emits nothing. The gate is the
  interval effect; the handler itself does not read the status.
\<close>

theorem terminal_status_disarms_timer:
  assumes "s = fst (run upd (fst (mount d geo a)) evs)"
    and "held_status (rendered s) = Some ''delivered'' \<or> held_status (rendered s) = Some ''failed''"
  shows "intervals (env s) = [] \<and> step upd s (TimerTick answer) = (s, [])"
proof -
  have "timer_inv s" using assms(1) reachable_inv by simp
  moreover have "\<not> sampling_allowed (rendered s)"
    using assms(2) by (auto simp add: sampling_allowed_def)
  ultimately have "intervals (env s) = []"
    by (simp add: timer_inv_def)
  then show ?thesis by simp
qed

text \<open>
  C1 as stated fails: the handler, called on the sample \<open>{1, 1}\<close> while the held delivery
  is \<open>delivered\<close> and stores \<open>{0, 0}\<close>, emits \<open>location_changed\<close>; the sample requested
  on mount reaches the handler in that state.
\<close>

theorem handler_emits_in_terminal_status:
  "snd (handleBrowserFetchCurrentLocation
     \<lparr>currentPosition = None,
      delivery = Some \<lparr>d_id = Str ''D1'',
        location = Some \<lparr>lat = Finite 0, lng = Finite 0\<rparr>, status = ''delivered''\<rparr>\<rparr>
     \<lparr>lat = Finite 1, lng = Finite 1\<rparr>)
   = [(LocationChanged,
       LocationPayload LocationChanged (Str ''D1'') \<lparr>lat = Finite 1, lng = Finite 1\<rparr>)]
   \<and> snd (mount
       (Some \<lparr>d_id = Str ''D1'',
          location = Some \<lparr>lat = Finite 0, lng = Finite 0\<rparr>, status = ''delivered''\<rparr>)
       True (Some \<lparr>lat = Finite 1, lng = Finite 1\<rparr>))
   = [(LocationChanged,
       LocationPayload LocationChanged (Str ''D1'') \<lparr>lat = Finite 1, lng = Finite 1\<rparr>)]"
  by (simp add: mount_def on_position_def interval_effect_def sampling_allowed_def
      held_status_def handleBrowserFetchCurrentLocation_def Let_def areLocationDifferent_def
      held_location_def held_id_def)

text \<open>
  The amended C1 on a session: mounted on \<open>D1\<close> in transit, the component receives the
  snapshot of \<open>D1\<close> with status \<open>delivered\<close>; afterwards no interval is armed and a tick
  with the sample \<open>{1, 1}\<close> changes and emits nothing.
\<close>

theorem terminal_status_disarms_timer_witness:
  "held_status (rendered (fst (run (\<lambda>snapshot held. Some snapshot)
      (fst (mount (Some \<lparr>d_id = Str ''D1'',
          location = Some \<lparr>lat = Finite 0, lng = Finite 0\<rparr>, status = ''in-transit''\<rparr>)
        True None))
      [Receive \<lparr>d_id = Str ''D1'',
         location = Some \<lparr>lat = Finite 0, lng = Finite 0\<rparr>, status = ''delivered''\<rparr>])))
     = Some ''delivered''
   \<and> intervals (env (fst (run (\<lambda>snapshot held. Some snapshot)
      (fst (mount (Some \<lparr>d_id = Str ''D1'',
          location = Some \<lparr>lat = Finite 0, lng = Finite 0\<rparr>, status = ''in-transit''\<rparr>)
        True None))
      [Receive \<lparr>d_id = Str ''D1'',
         location = Some \<lparr>lat = Finite 0, lng = Finite 0\<rparr>, status = ''delivered''\<rparr>]))) = []
   \<and> snd (step (\<lambda>snapshot held. Some snapshot)
      (fst (run (\<lambda>snapshot held. Some snapshot)
        (fst (mount (Some \<lparr>d_id = Str ''D1'',
            location = Some \<lparr>lat = Finite 0, lng = Finite 0\<rparr>, status = ''in-transit''\<rparr>)
          True None))
        [Receive \<lparr>d_id = Str ''D1'',
           location = Some \<lparr>lat = Finite 0, lng = Finite 0\<rparr>, status = ''delivered''\<rparr>]))
      (TimerTick (Some \<lparr>lat = Finite 1, lng = Finite 1\<rparr>))) = []"
proof -
  let ?s = "fst (run (\<lambda>snapshot held. Some snapshot)
      (fst (mount (Some \<lparr>d_id = Str ''D1'',
          location = Some \<lparr>lat = Finite 0, lng = Finite 0\<rparr>, status = ''in-transit''\<rparr>)
        True None))
      [Receive \<lparr>d_id = Str ''D1'',
         location = Some \<lparr>lat = Finite 0, lng = Finite 0\<rparr>, status = ''delivered''\<rparr>])"
  have h: "held_status (rendered ?s) = Some ''delivered''"
    by (simp add: mount_def interval_effect_def sampling_allowed_def held_status_def
        held_id_def setInterval_def Let_def mount_sample_effect_def getCurrentPosition_def
        onDeliveryUpdatedEvent_def rerender_def interval_cleanup_def clearInterval_def)
  then have "held_status (rendered ?s) = Some ''delivered''
      \<or> held_status (rendered ?s) = Some ''failed''"
    by (rule disjI1)
  from terminal_status_disarms_timer [OF refl this,
      of "Some \<lparr>lat = Finite 1, lng = Finite 1\<rparr>"]
  show ?thesis using h by simp
qed

section \<open>The status callbacks\<close>

lemma interval_effect_rendered [simp]: "rendered (interval_effect s) = rendered s"
  by (simp add: interval_effect_def case_prod_unfold Let_def)

lemma interval_cleanup_rendered [simp]: "rendered (interval_cleanup s) = rendered s"
  by (simp add: interval_cleanup_def split: option.splits)

lemma rerender_rendered [simp]: "rendered (rerender s) = rendered s"
  by (simp add: rerender_def)

lemma on_position_delivery [simp]:
  "delivery (rendered (fst (on_position s p))) = delivery (rendered s)"
  by (simp add: on_position_def case_prod_unfold Let_def)

lemma step_delivery:
  "delivery (rendered (fst (step upd s ev))) \<noteq> delivery (rendered s) \<Longrightarrow>
   \<exists>v. ev = Receive v \<and> d_id v = held_id (rendered s)"
  by (cases ev) (auto simp add: Let_def onDeliveryUpdatedEvent_def split: option.splits if_splits)

text \<open>
  C7. Each of the four status callbacks emits exactly one \<open>status_changed\<close> event whose
  payload carries the id of the held delivery and the fixed target status of the callback,
  whatever the current status is. A click leaves the whole component as it is. The held
  delivery, and so its status, changes only in a step that receives a \<open>delivery_updated\<close>
  event with the held id.
\<close>

theorem status_callbacks_emit_intent_only:
  "onPickedUp c = [(StatusChanged, StatusPayload StatusChanged (held_id c) ''picked-up'')]
   \<and> onInTransit c = [(StatusChanged, StatusPayload StatusChanged (held_id c) ''in-transit'')]
   \<and> onDelivered c = [(StatusChanged, StatusPayload StatusChanged (held_id c) ''delivered'')]
   \<and> onFailed c = [(StatusChanged, StatusPayload StatusChanged (held_id c) ''failed'')]
   \<and> length (click t c) = 1
   \<and> step upd s (Click t) = (s, click t (rendered s))
   \<and> (delivery (rendered (fst (step upd s ev))) \<noteq> delivery (rendered s) \<longrightarrow>
        (\<exists>v. ev = Receive v \<and> d_id v = held_id (rendered s)))"
proof -
  have "length (click t c) = 1"
    by (cases t) (simp_all add: onPickedUp_def onInTransit_def onDelivered_def onFailed_def)
  then show ?thesis
    using step_delivery [of upd s ev]
    by (simp add: onPickedUp_def onInTransit_def onDelivered_def onFailed_def)
qed

text \<open>
  C7 on the delivery \<open>D1\<close> with status \<open>open\<close>: the click on "Picked Up" emits the
  intent and leaves the component as it is; the held delivery changes when the snapshot
  of \<open>D1\<close> with status \<open>picked-up\<close> is received.
\<close>

theorem status_callbacks_emit_intent_only_witness:
  "onPickedUp \<lparr>currentPosition = None,
      delivery = Some \<lparr>d_id = Str ''D1'', location = None, status = ''open''\<rparr>\<rparr>
     = [(StatusChanged, StatusPayload StatusChanged (Str ''D1'') ''picked-up'')]
   \<and> step (\<lambda>snapshot held. Some snapshot)
        (fst (mount (Some \<lparr>d_id = Str ''D1'', location = None, status = ''open''\<rparr>) True None))
        (Click PickedUp)
      = (fst (mount (Some \<lparr>d_id = Str ''D1'', location = None, status = ''open''\<rparr>) True None),
         [(StatusChanged, StatusPayload StatusChanged (Str ''D1'') ''picked-up'')])
   \<and> delivery (rendered (fst (step (\<lambda>snapshot held. Some snapshot)
        (fst (mount (Some \<lparr>d_id = Str ''D1'', location = None, status = ''open''\<rparr>) True None))
        (Receive \<lparr>d_id = Str ''D1'', location = None, status = ''picked-up''\<rparr>))))
      \<noteq> delivery (rendered
        (fst (mount (Some \<lparr>d_id = Str ''D1'', location = None, status = ''open''\<rparr>) True None)))
   \<and> d_id \<lparr>d_id = Str ''D1'', location = None, status = ''picked-up''\<rparr>
      = held_id (rendered
        (fst (mount (Some \<lparr>d_id = Str ''D1'', location = None, status = ''open''\<rparr>) True None)))"
proof -
  let ?s = "fst (mount (Some \<lparr>d_id = Str ''D1'', location = None, status = ''open''\<rparr>) True None)"
  let ?v = "\<lparr>d_id = Str ''D1'', location = None, status = ''picked-up''\<rparr>"
  have r: "rendered ?s = \<lparr>currentPosition = None,
      delivery = Some \<lparr>d_id = Str ''D1'', location = None, status = ''open''\<rparr>\<rparr>"
    by (simp add: mount_def Let_def)
  have changed: "delivery (rendered (fst (step (\<lambda>snapshot held. Some snapshot) ?s (Receive ?v))))
      \<noteq> delivery (rendered ?s)"
    by (simp add: r onDeliveryUpdatedEvent_def held_id_def)
  show ?thesis
    using changed r
      status_callbacks_emit_intent_only
        [of "\<lparr>currentPosition = None,
              delivery = Some \<lparr>d_id = Str ''D1'', location = None, status = ''open''\<rparr>\<rparr>"
            PickedUp "\<lambda>snapshot held. Some snapshot" ?s "Receive ?v"]
    by (simp add: held_id_def)
qed

section \<open>The position sampler\<close>

lemma getCurrentPosition_intervals [simp]:
  "intervals (getCurrentPosition b) = intervals b"
  by (simp add: getCurrentPosition_def)

lemma interval_effect_requests [simp]:
  "position_requests (env (interval_effect s)) = position_requests (env s)"
  by (simp add: interval_effect_def setInterval_def Let_def)

lemma interval_cleanup_requests [simp]:
  "position_requests (env (interval_cleanup s)) = position_requests (env s)"
  by (simp add: interval_cleanup_def clearInterval_def split: option.splits)

lemma rerender_requests [simp]:
  "position_requests (env (rerender s)) = position_requests (env s)"
  by (simp add: rerender_def)

lemma on_position_requests [simp]:
  "position_requests (env (fst (on_position s p))) = position_requests (env s)"
  by (simp add: on_position_def case_prod_unfold Let_def)

lemma mount_requests:
  "position_requests (env (fst (mount d geo a))) = (if geo then 1 else 0)"
  by (cases a) (simp_all add: mount_def Let_def mount_sample_effect_def getCurrentPosition_def)

lemma tick_requests:
  "intervals (env s) \<noteq> [] \<Longrightarrow> has_geolocation (env s) \<Longrightarrow>
   position_requests (env (fst (step upd s (TimerTick answer)))) = Suc (position_requests (env s))"
  by (cases answer) (simp_all add: Let_def interval_callback_def getCurrentPosition_def)

lemma timer_inv_intervals:
  "timer_inv s \<Longrightarrow>
   map snd (intervals (env s)) = (if sampling_allowed (rendered s) then [20 * 1000] else [])"
  by (cases "fetchCurrentPositionIntervalId s") (auto simp add: timer_inv_def)

lemma unmount_intervals: "timer_inv s \<Longrightarrow> intervals (env (unmount s)) = []"
  using cleanup_clears [OF timer_inv_cleanup_inv, of s]
  by (simp add: unmount_def)

lemma interval_effect_geolocation [simp]:
  "has_geolocation (env (interval_effect s)) = has_geolocation (env s)"
  by (simp add: interval_effect_def setInterval_def Let_def)

lemma interval_cleanup_geolocation [simp]:
  "has_geolocation (env (interval_cleanup s)) = has_geolocation (env s)"
  by (simp add: interval_cleanup_def clearInterval_def split: option.splits)

lemma rerender_geolocation [simp]:
  "has_geolocation (env (rerender s)) = has_geolocation (env s)"
  by (simp add: rerender_def)

lemma on_position_geolocation [simp]:
  "has_geolocation (env (fst (on_position s p))) = has_geolocation (env s)"
  by (simp add: on_position_def case_prod_unfold Let_def)

lemma mount_geolocation: "has_geolocation (env (fst (mount d geo a))) = geo"
  by (cases a) (simp_all add: mount_def Let_def mount_sample_effect_def getCurrentPosition_def)

lemma step_geolocation:
  "has_geolocation (env (fst (step upd s ev))) = has_geolocation (env s)"
  by (cases ev)
    (simp_all add: Let_def interval_callback_def getCurrentPosition_def split: option.splits)

lemma run_geolocation:
  "has_geolocation (env (fst (run upd s evs))) = has_geolocation (env s)"
proof (induction evs arbitrary: s)
  case Nil
  show ?case by simp
next
  case (Cons e es)
  show ?case
    using Cons.IH [of "fst (step upd s e)"] step_geolocation [of upd s e]
    by (simp add: case_prod_unfold Let_def)
qed

lemma tick_without_timer:
  "intervals (env s) = [] \<Longrightarrow> step upd s (TimerTick answer) = (s, [])"
  by simp

lemma tick_without_geolocation:
  "\<not> has_geolocation (env s) \<Longrightarrow>
   position_requests (env (fst (step upd s (TimerTick answer)))) = position_requests (env s)"
  by (cases answer) (simp_all add: Let_def interval_callback_def)

text \<open>
  C8, as amended. On mount the component requests one position sample when the browser
  has a geolocation provider, and none when it has not. In every state a mounted
  component can reach, no interval is armed while the status of the held delivery is
  \<open>delivered\<close> or \<open>failed\<close>, and exactly one, with a delay of 20000 ms, otherwise; a tick
  requests one further sample when the interval is armed and the browser has a provider,
  and none otherwise; and unmounting leaves no interval armed.
\<close>

theorem position_sampler_lifecycle:
  assumes "s = fst (run upd (fst (mount d geo a)) evs)"
  shows "position_requests (env (fst (mount d geo a))) = (if geo then 1 else 0)
    \<and> map snd (intervals (env s)) =
        (if held_status (rendered s) = Some ''delivered''
            \<or> held_status (rendered s) = Some ''failed''
         then [] else [20 * 1000])
    \<and> position_requests (env (fst (step upd s (TimerTick answer)))) =
        position_requests (env s) +
        (if geo \<and> held_status (rendered s) \<noteq> Some ''delivered''
            \<and> held_status (rendered s) \<noteq> Some ''failed''
         then 1 else 0)
    \<and> intervals (env (unmount s)) = []"
proof -
  have inv: "timer_inv s"
    using assms reachable_inv by simp
  have geo: "has_geolocation (env s) = geo"
    using assms by (simp add: run_geolocation mount_geolocation)
  have timer: "map snd (intervals (env s))
      = (if sampling_allowed (rendered s) then [20 * 1000] else [])"
    using inv by (rule timer_inv_intervals)
  have tick: "position_requests (env (fst (step upd s (TimerTick answer)))) =
      position_requests (env s) + (if geo \<and> sampling_allowed (rendered s) then 1 else 0)"
  proof (cases "geo \<and> sampling_allowed (rendered s)")
    case True
    then have "intervals (env s) \<noteq> []"
      using timer by auto
    moreover have "has_geolocation (env s)"
      using True geo by simp
    ultimately have "position_requests (env (fst (step upd s (TimerTick answer))))
        = Suc (position_requests (env s))"
      by (rule tick_requests)
    then show ?thesis using True by simp
  next
    case False
    show ?thesis
    proof (cases geo)
      case True
      then have "intervals (env s) = []"
        using False timer by auto
      then have "step upd s (TimerTick answer) = (s, [])"
        by (rule tick_without_timer)
      then show ?thesis using False by simp
    next
      case no_provider: False
      then have "\<not> has_geolocation (env s)"
        using geo by simp
      then have "position_requests (env (fst (step upd s (TimerTick answer))))
          = position_requests (env s)"
        by (rule tick_without_geolocation)
      then show ?thesis using no_provider by simp
    qed
  qed
  show ?thesis
    using timer tick unmount_intervals [OF inv]
    by (simp add: mount_requests sampling_allowed_def)
qed

text \<open>
  C8 as stated fails twice. In a browser without geolocation mounting requests no sample.
  And sampling is not confined to the non-terminal statuses: mounted on a \<open>failed\<close>
  delivery, the component requests a sample, and the answer \<open>{1, 1}\<close> is emitted.
\<close>

theorem mount_sample_depends_on_provider_not_on_status:
  "position_requests (env (fst (mount
       (Some \<lparr>d_id = Str ''D1'', location = None, status = ''in-transit''\<rparr>) False None))) = 0
   \<and> position_requests (env (fst (mount
       (Some \<lparr>d_id = Str ''D1'',
          location = Some \<lparr>lat = Finite 0, lng = Finite 0\<rparr>, status = ''failed''\<rparr>)
       True (Some \<lparr>lat = Finite 1, lng = Finite 1\<rparr>)))) = 1
   \<and> snd (mount
       (Some \<lparr>d_id = Str ''D1'',
          location = Some \<lparr>lat = Finite 0, lng = Finite 0\<rparr>, status = ''failed''\<rparr>)
       True (Some \<lparr>lat = Finite 1, lng = Finite 1\<rparr>))
     = [(LocationChanged,
         LocationPayload LocationChanged (Str ''D1'') \<lparr>lat = Finite 1, lng = Finite 1\<rparr>)]"
  by (simp add: mount_requests)
    (simp add: mount_def on_position_def interval_effect_def sampling_allowed_def
      held_status_def handleBrowserFetchCurrentLocation_def Let_def areLocationDifferent_def
      held_location_def held_id_def)

text \<open>
  The amended C8 on the delivery \<open>D1\<close> in transit, in a browser with geolocation whose
  provider does not answer the first request. After mounting, one sample has been
  requested and one interval of 20000 ms is armed; a tick requests a second sample;
  unmounting clears the interval. After the snapshot of \<open>D1\<close> with status \<open>delivered\<close> is
  received, no interval is armed and a tick requests nothing.
\<close>

theorem position_sampler_lifecycle_witness:
  "position_requests (env (fst (mount
       (Some \<lparr>d_id = Str ''D1'', location = None, status = ''in-transit''\<rparr>) True None))) = 1
   \<and> map snd (intervals (env (fst (mount
       (Some \<lparr>d_id = Str ''D1'', location = None, status = ''in-transit''\<rparr>) True None))))
      = [20000]
   \<and> position_requests (env (fst (step (\<lambda>snapshot held. Some snapshot)
       (fst (mount
         (Some \<lparr>d_id = Str ''D1'', location = None, status = ''in-transit''\<rparr>) True None))
       (TimerTick (Some \<lparr>lat = Finite 1, lng = Finite 1\<rparr>))))) = 2
   \<and> intervals (env (unmount (fst (mount
       (Some \<lparr>d_id = Str ''D1'', location = None, status = ''in-transit''\<rparr>) True None)))) = []
   \<and> held_status (rendered (fst (run (\<lambda>snapshot held. Some snapshot)
       (fst (mount
         (Some \<lparr>d_id = Str ''D1'', location = None, status = ''in-transit''\<rparr>) True None))
       [Receive \<lparr>d_id = Str ''D1'', location = None, status = ''delivered''\<rparr>])))
      = Some ''delivered''
   \<and> intervals (env (fst (run (\<lambda>snapshot held. Some snapshot)
       (fst (mount
         (Some \<lparr>d_id = Str ''D1'', location = None, status = ''in-transit''\<rparr>) True None))
       [Receive \<lparr>d_id = Str ''D1'', location = None, status = ''delivered''\<rparr>]))) = []
   \<and> position_requests (env (fst (step (\<lambda>snapshot held. Some snapshot)
       (fst (run (\<lambda>snapshot held. Some snapshot)
         (fst (mount
           (Some \<lparr>d_id = Str ''D1'', location = None, status = ''in-transit''\<rparr>) True None))
         [Receive \<lparr>d_id = Str ''D1'', location = None, status = ''delivered''\<rparr>]))
       (TimerTick (Some \<lparr>lat = Finite 1, lng = Finite 1\<rparr>))))) = 1"
proof -
  let ?m = "fst (mount
       (Some \<lparr>d_id = Str ''D1'', location = None, status = ''in-transit''\<rparr>) True None)"
  let ?t = "fst (run (\<lambda>snapshot held. Some snapshot) ?m
       [Receive \<lparr>d_id = Str ''D1'', location = None, status = ''delivered''\<rparr>])"
  have reach_m: "?m = fst (run (\<lambda>snapshot held. Some snapshot) ?m [])"
    by simp
  have status_m: "held_status (rendered ?m) = Some ''in-transit''"
    by (simp add: mount_def Let_def held_status_def)
  have status_t: "held_status (rendered ?t) = Some ''delivered''"
    by (simp add: mount_def Let_def held_status_def held_id_def onDeliveryUpdatedEvent_def)
  have requests_m: "position_requests (env ?m) = 1"
    by (simp add: mount_requests)
  have requests_t: "position_requests (env ?t) = 1"
    by (simp add: mount_requests held_id_def onDeliveryUpdatedEvent_def mount_def Let_def
        mount_sample_effect_def getCurrentPosition_def)
  show ?thesis
    using status_m status_t requests_m requests_t
      position_sampler_lifecycle [OF reach_m, of "Some \<lparr>lat = Finite 1, lng = Finite 1\<rparr>"]
      position_sampler_lifecycle [of ?t "\<lambda>snapshot held. Some snapshot"
           "Some \<lparr>d_id = Str ''D1'', location = None, status = ''in-transit''\<rparr>" True None
           "[Receive \<lparr>d_id = Str ''D1'', location = None, status = ''delivered''\<rparr>]"
           "Some \<lparr>lat = Finite 1, lng = Finite 1\<rparr>", OF refl]
    by (simp del: run.simps step.simps)
qed

end
